theory Spec2Isabelle
  imports Complex_Main
begin

section \<open>World editor store (WEState.ts)\<close>

text \<open>
  The store of the world editor panel: a handful of observable fields, and operations that
  update them and forward intents to the game client (\<^verbatim>\<open>sendGameClientEvent\<close>), to the
  API transport (\<^verbatim>\<open>sendApiMessage\<close>) and to other singletons of the shell. Every call that
  leaves the store is appended to an effect log, in program order, so that what was sent,
  with which payload and after what, can be stated.
\<close>

subsection \<open>Enumerations\<close>

datatype WEMode = EDITOR | PLAYTEST

datatype EditorMode = TRANSLATE | ROTATE | SCALE

text \<open>
  Modelled from the spec: the enum \<^verbatim>\<open>WESelectionType\<close> is declared in
  \<^verbatim>\<open>backend/world-editor/world-editor-types\<close>, which is not among the sources. The glossary
  gives its members (none / addition / patch); the store names them \<^verbatim>\<open>NONE\<close>,
  \<^verbatim>\<open>ADDITION\<close> and \<^verbatim>\<open>PATCH\<close>.
\<close>

datatype WESelectionType = NONE | ADDITION | PATCH

text \<open>
  Modelled from the spec: \<^verbatim>\<open>ShellPersonality\<close> (\<^verbatim>\<open>store/ShellState\<close>) is not among the
  sources; these are the two members the store refers to.
\<close>

datatype ShellPersonality = THEIA | WORLD_EDITOR

text \<open>
  Modelled from the spec: \<^verbatim>\<open>worldEditorApi\<close> (\<^verbatim>\<open>shared/api.events\<close>) is not among the
  sources; these are the three endpoints the store refers to.
\<close>

datatype worldEditorApi = start | stop | mapLoaded

subsection \<open>Numbers, strings and \<^verbatim>\<open>parseInt\<close>\<close>

text \<open>
  A number of the source is a double: not-a-number, one of the two infinities, or a finite
  value. Every finite double is a rational, so the finite ones are modelled by \<open>Num\<close> (both
  zeros by \<open>0\<close>, which \<^verbatim>\<open>===\<close> identifies as well). Not every rational is a double; no
  definition here does arithmetic on a number, the store only carries and compares them.
\<close>

datatype jsnumber = NaN | PosInfinity | NegInfinity | Num rat

text \<open>Strict equality \<^verbatim>\<open>===\<close> on numbers: not-a-number equals nothing, itself included.\<close>

definition strict_eq :: "jsnumber \<Rightarrow> jsnumber \<Rightarrow> bool" where
  "strict_eq a b \<longleftrightarrow> a \<noteq> NaN \<and> b \<noteq> NaN \<and> a = b"

text \<open>
  A string of the source is represented by a \<open>string\<close>. The store compares strings with
  \<^verbatim>\<open>===\<close> and hands them to \<^verbatim>\<open>parseInt\<close>; it never looks inside one.

  \<^verbatim>\<open>parseInt\<close> is a builtin of the language, not code of this file. What it skips, which
  digits it reads and how it rounds them to a double is the language's affair, so the
  function \<^verbatim>\<open>s => parseInt(s, 10)\<close> is a parameter of \<open>isPatchSelected\<close> below, and what is
  proved holds for whatever it returns.
\<close>

subsection \<open>Selection\<close>

text \<open>
  Modelled from the spec: the type \<^verbatim>\<open>WESelection\<close> is declared in
  \<^verbatim>\<open>backend/world-editor/world-editor-types\<close>, which is not among the sources. The spec
  describes it as a tagged variant whose tag determines which optional fields are
  meaningful. The model is the object as the store reads it: the tag \<^verbatim>\<open>type\<close> and the three
  fields the store reads (\<^verbatim>\<open>id\<close>, \<^verbatim>\<open>mapdata\<close>, \<^verbatim>\<open>entity\<close>), each present or absent
  (\<open>None\<close> for \<^verbatim>\<open>undefined\<close>) whatever the tag is.
\<close>

record WESelection =
  type :: WESelectionType
  id' :: "string option"
  mapdata :: "jsnumber option"
  entity :: "jsnumber option"

text \<open>The object literal \<^verbatim>\<open>{ type: WESelectionType.NONE }\<close>.\<close>

definition selection_NONE :: WESelection where
  "selection_NONE = \<lparr>type = NONE, id' = None, mapdata = None, entity = None\<rparr>"

text \<open>\<^verbatim>\<open>field === value\<close> where the field may be absent: \<^verbatim>\<open>undefined\<close> equals no string and no number.\<close>

definition field_eq_string :: "string option \<Rightarrow> string \<Rightarrow> bool" where
  "field_eq_string f v = (case f of None \<Rightarrow> False | Some x \<Rightarrow> x = v)"

definition field_eq_number :: "jsnumber option \<Rightarrow> jsnumber \<Rightarrow> bool" where
  "field_eq_number f v = (case f of None \<Rightarrow> False | Some x \<Rightarrow> strict_eq x v)"

subsection \<open>The store and its surroundings\<close>

text \<open>
  Modelled from the spec: \<^verbatim>\<open>FilesystemEntry\<close> (\<^verbatim>\<open>shared/api.types\<close>) is not among the
  sources; the store reads its \<^verbatim>\<open>name\<close> and \<^verbatim>\<open>path\<close>.
\<close>

record FilesystemEntry =
  name :: string
  path :: string

text \<open>
  Modelled from the spec: the class \<^verbatim>\<open>WEMapState\<close> is not among the sources. The store only
  constructs it from a received map (\<^verbatim>\<open>new WEMapState(map)\<close>); the received map \<open>'m\<close> is
  left abstract.
\<close>

datatype 'm WEMapState = WEMapState 'm

text \<open>
  The fields of the class. An input controller is an object of the class
  \<^verbatim>\<open>InputController\<close>, which is not among the sources: the store holds a reference to it
  (a number that identifies the object) or \<^verbatim>\<open>undefined\<close>, and the calls of its methods go
  to the effect log. \<^verbatim>\<open>introSeen\<close> is the value held by the \<^verbatim>\<open>LocalStorageValue\<close>.
\<close>

record 'm WEState =
  inputController :: "nat option"
  ready :: bool
  mode :: WEMode
  editorSelect :: bool
  editorMode :: EditorMode
  editorLocal :: bool
  selection :: WESelection
  map' :: "'m WEMapState option"
  mapEntry :: "FilesystemEntry option"
  introSeen :: bool
  forceShowIntro :: bool

text \<open>
  Values handed to \<^verbatim>\<open>JSON.stringify\<close>: an array of numbers, an object literal with named
  properties in the order written, or a selection object. The serialisation itself is a
  builtin of the language and stays symbolic: a payload is either a string literal of the
  source or the result of \<^verbatim>\<open>JSON.stringify\<close> applied, in this file, to a value.
\<close>

datatype jsvalue =
    JNumber jsnumber
  | JArray "jsvalue list"
  | JObject "(string \<times> jsvalue) list"
  | JSelection WESelection

datatype payload = Literal string | JSON_stringify jsvalue

record WorldEditorStartRequest =
  mapPath :: string

text \<open>The functions the store hands to the input controller.\<close>

datatype callback = setEditorSelect_cb | enterEditorMode_cb | cameraSpeedMessage_cb

text \<open>
  One constructor for each call that leaves the store: \<^verbatim>\<open>sendGameClientEvent(name, payload)\<close>,
  \<^verbatim>\<open>sendApiMessage(endpoint, data)\<close>, \<^verbatim>\<open>Events.selectionChanged.emit\<close>,
  \<^verbatim>\<open>WEHistory.reset\<close>, \<^verbatim>\<open>ShellState.setPersonality\<close>,
  \<^verbatim>\<open>GameState.refreshArchetypesCollection\<close>, and the constructor and methods of the input
  controller (the first argument is the controller, the second of \<open>InputController_new\<close>
  the container reference). What the receiver of a call does in turn, a listener of
  \<^verbatim>\<open>selectionChanged\<close> for one, is outside this file and outside the model.
\<close>

datatype effect =
    GameClientEvent string payload
  | ApiMessage worldEditorApi "WorldEditorStartRequest option"
  | SelectionChanged WESelection
  | HistoryReset
  | SetPersonality ShellPersonality
  | RefreshArchetypesCollection
  | InputController_new nat nat callback
  | OnEscapeFullControl nat callback
  | OnCameraMovementBaseMultiplierChange nat callback
  | EnterFullControl nat
  | ExitFullControl nat
  | Destroy nat

text \<open>
  The store together with what it touches outside itself: the effect log, the flag
  \<^verbatim>\<open>GameState.archetypesCollectionReady\<close> it reads, and the number of input controllers
  constructed so far, which names the next one.
\<close>

record 'm World =
  store :: "'m WEState"
  effects :: "effect list"
  archetypesCollectionReady :: bool
  controllersCreated :: nat

text \<open>A call either returns or throws; what it did before throwing stays done.\<close>

datatype completion = Returned | TypeError

definition emit :: "effect \<Rightarrow> 'm World \<Rightarrow> 'm World" where
  "emit e w = w\<lparr>effects := effects w @ [e]\<rparr>"

definition sendGameClientEvent :: "string \<Rightarrow> payload \<Rightarrow> 'm World \<Rightarrow> 'm World" where
  "sendGameClientEvent n p w = emit (GameClientEvent n p) w"

definition sendApiMessage :: "worldEditorApi \<Rightarrow> WorldEditorStartRequest option \<Rightarrow> 'm World \<Rightarrow> 'm World" where
  "sendApiMessage t d w = emit (ApiMessage t d) w"

text \<open>
  The field initialisers and the constructor; \<open>ui_only\<close> is the constant
  \<^verbatim>\<open>__DEBUG_MODE_TOGGLES__.WORLD_EDITOR_UI_ONLY\<close>, which is not among the sources.
\<close>

definition WEState_new :: "bool \<Rightarrow> 'm WEState" where
  "WEState_new ui_only =
     \<lparr>inputController = None, ready = ui_only, mode = EDITOR, editorSelect = False,
      editorMode = TRANSLATE, editorLocal = False, selection = selection_NONE,
      map' = None, mapEntry = None, introSeen = False, forceShowIntro = False\<rparr>"

definition World_new :: "bool \<Rightarrow> 'm World" where
  "World_new ui_only =
     \<lparr>store = WEState_new ui_only, effects = [], archetypesCollectionReady = False,
      controllersCreated = 0\<rparr>"

subsection \<open>Selection predicates\<close>

definition isAdditionSelected :: "'m WEState \<Rightarrow> string \<Rightarrow> bool" where
  "isAdditionSelected st additionId =
     (if type (selection st) \<noteq> ADDITION then False
      else field_eq_string (id' (selection st)) additionId)"

definition isPatchSelected ::
  "(string \<Rightarrow> jsnumber) \<Rightarrow> 'm WEState \<Rightarrow> string \<Rightarrow> string \<Rightarrow> bool" where
  "isPatchSelected parseInt st md en =
     (if type (selection st) \<noteq> PATCH then False
      else field_eq_number (mapdata (selection st)) (parseInt md)
         \<and> field_eq_number (entity (selection st)) (parseInt en))"

subsection \<open>Mode\<close>

definition enterPlaytestMode :: "'m World \<Rightarrow> completion \<times> 'm World" where
  "enterPlaytestMode w =
     (if mode (store w) = PLAYTEST then (Returned, w)
      else
        let w1 = sendGameClientEvent ''we:enterPlaytestMode'' (Literal '''') w;
            w2 = w1\<lparr>store := (store w1)\<lparr>mode := PLAYTEST\<rparr>\<rparr>
        in case inputController (store w2) of
             None \<Rightarrow> (TypeError, w2)
           | Some ic \<Rightarrow> (Returned, emit (EnterFullControl ic) w2))"

definition enterEditorMode :: "bool \<Rightarrow> 'm World \<Rightarrow> completion \<times> 'm World" where
  "enterEditorMode relative w =
     (if mode (store w) = EDITOR then (Returned, w)
      else
        let w1 = sendGameClientEvent ''we:exitPlaytestMode''
                   (Literal (if relative then ''true'' else '''')) w;
            w2 = w1\<lparr>store := (store w1)\<lparr>mode := EDITOR\<rparr>\<rparr>
        in case inputController (store w2) of
             None \<Rightarrow> (TypeError, w2)
           | Some ic \<Rightarrow> (Returned, emit (ExitFullControl ic) w2))"

subsection \<open>Camera\<close>

definition setCam :: "jsnumber list \<Rightarrow> 'm World \<Rightarrow> 'm World" where
  "setCam cam w =
     sendGameClientEvent ''we:setCam'' (JSON_stringify (JArray (map JNumber cam))) w"

definition focusInView :: "jsnumber list \<Rightarrow> jsnumber \<times> jsnumber \<times> jsnumber \<Rightarrow> 'm World \<Rightarrow> 'm World" where
  "focusInView cam lookAt w =
     (case lookAt of (x, y, z) \<Rightarrow>
        sendGameClientEvent ''we:focusInView''
          (JSON_stringify (JObject [(''cam'', JArray (map JNumber cam)),
                                    (''lookAt'', JArray [JNumber x, JNumber y, JNumber z])])) w)"

subsection \<open>Map lifecycle\<close>

definition openMap :: "FilesystemEntry \<Rightarrow> 'm World \<Rightarrow> 'm World" where
  "openMap entry w =
     (let w1 = w\<lparr>store := (store w)\<lparr>map' := None\<rparr>\<rparr>;
          w2 = w1\<lparr>store := (store w1)\<lparr>mapEntry := Some entry\<rparr>\<rparr>;
          w3 = emit HistoryReset w2;
          w4 = sendApiMessage start (Some \<lparr>mapPath = path entry\<rparr>) w3
      in emit (SetPersonality WORLD_EDITOR) w4)"

definition closeMap :: "bool \<Rightarrow> 'm World \<Rightarrow> 'm World" where
  "closeMap ui_only w =
     (let w1 = (if False = ui_only then w\<lparr>store := (store w)\<lparr>ready := False\<rparr>\<rparr> else w);
          w2 = w1\<lparr>store := (store w1)\<lparr>map' := None\<rparr>\<rparr>;
          w3 = w2\<lparr>store := (store w2)\<lparr>mapEntry := None\<rparr>\<rparr>;
          w4 = sendApiMessage stop None w3
      in emit (SetPersonality THEIA) w4)"

subsection \<open>Selection updates\<close>

definition updateSelection :: "WESelection \<Rightarrow> 'm World \<Rightarrow> 'm World" where
  "updateSelection s w =
     emit (SelectionChanged s) (w\<lparr>store := (store w)\<lparr>selection := s\<rparr>\<rparr>)"

definition setEditorSelection :: "WESelection \<Rightarrow> 'm World \<Rightarrow> 'm World" where
  "setEditorSelection s w =
     sendGameClientEvent ''we:selection'' (JSON_stringify (JSelection s)) (updateSelection s w)"

definition clearEditorSelection :: "'m World \<Rightarrow> 'm World" where
  "clearEditorSelection w = setEditorSelection selection_NONE w"

subsection \<open>Input controller lifecycle\<close>

definition createInputController :: "nat \<Rightarrow> 'm World \<Rightarrow> 'm World" where
  "createInputController container w =
     (let ic = controllersCreated w;
          w1 = emit (InputController_new ic container setEditorSelect_cb)
                 (w\<lparr>controllersCreated := Suc ic\<rparr>);
          w2 = w1\<lparr>store := (store w1)\<lparr>inputController := Some ic\<rparr>\<rparr>;
          w3 = emit (OnEscapeFullControl ic enterEditorMode_cb) w2
      in emit (OnCameraMovementBaseMultiplierChange ic cameraSpeedMessage_cb) w3)"

definition destroyInputController :: "'m World \<Rightarrow> 'm World" where
  "destroyInputController w =
     (let w1 = updateSelection selection_NONE w
      in case inputController (store w1) of
           None \<Rightarrow> w1
         | Some ic \<Rightarrow>
             let w2 = emit (Destroy ic) w1
             in w2\<lparr>store := (store w2)\<lparr>inputController := None\<rparr>\<rparr>)"

subsection \<open>Handlers bound in \<^verbatim>\<open>bindEvents\<close>\<close>

text \<open>The handler of the window event \<^verbatim>\<open>we:ready\<close>.\<close>

definition on_we_ready :: "'m World \<Rightarrow> 'm World" where
  "on_we_ready w =
     (let w1 = w\<lparr>store := (store w)\<lparr>ready := True\<rparr>\<rparr>
      in if \<not> archetypesCollectionReady w1 then emit RefreshArchetypesCollection w1 else w1)"

text \<open>The handler of the API message \<^verbatim>\<open>worldEditorApi.mapLoaded\<close>.\<close>

definition on_mapLoaded :: "'m \<Rightarrow> 'm World \<Rightarrow> 'm World" where
  "on_mapLoaded m w = w\<lparr>store := (store w)\<lparr>map' := Some (WEMapState m)\<rparr>\<rparr>"

text \<open>The listener of \<^verbatim>\<open>Events.additionDeleted\<close>; \<open>i\<close> is the \<^verbatim>\<open>id\<close> of the event.\<close>

definition on_additionDeleted :: "string \<Rightarrow> 'm World \<Rightarrow> 'm World" where
  "on_additionDeleted i w =
     (if type (selection (store w)) = ADDITION \<and> field_eq_string (id' (selection (store w))) i
      then clearEditorSelection w else w)"

subsection \<open>Observations on the effect log\<close>

text \<open>What a call added to the log: the effects of the world after it, past those before it.\<close>

definition sent :: "'m World \<Rightarrow> 'm World \<Rightarrow> effect list" where
  "sent w w' = drop (length (effects w)) (effects w')"

fun isGameClientEvent :: "effect \<Rightarrow> bool" where
  "isGameClientEvent (GameClientEvent _ _) = True"
| "isGameClientEvent _ = False"

text \<open>A game-client event whose payload this file produced with \<^verbatim>\<open>JSON.stringify\<close>.\<close>

fun serialisedHere :: "effect \<Rightarrow> bool" where
  "serialisedHere (GameClientEvent _ (JSON_stringify _)) = True"
| "serialisedHere _ = False"

subsection \<open>Example inputs\<close>

text \<open>The store after construction and one \<^verbatim>\<open>createInputController\<close>, as a mounted panel has it.\<close>

definition world_ex :: "unit World" where
  "world_ex = createInputController 0 (World_new False)"

definition cam_ex :: "jsnumber list" where
  "cam_ex = [Num 1, Num (3 / 2), Num (- 20), Num 0, Num 0, Num 90]"

definition selection_ex :: WESelection where
  "selection_ex = \<lparr>type = ADDITION, id' = Some ''a1'', mapdata = None, entity = None\<rparr>"

text \<open>A selection tagged \<^verbatim>\<open>NONE\<close> that still carries the fields of the other variants.\<close>

definition selection_stale :: WESelection where
  "selection_stale =
     \<lparr>type = NONE, id' = Some ''a1'', mapdata = Some (Num 12), entity = Some (Num (- 7))\<rparr>"

definition selection_patch :: WESelection where
  "selection_patch =
     \<lparr>type = PATCH, id' = None, mapdata = Some (Num 12), entity = Some (Num (- 7))\<rparr>"

text \<open>A patch selection whose \<^verbatim>\<open>mapdata\<close> is \<open>2 ^ 53\<close>, and one whose numbers are not-a-number.\<close>

definition selection_patch_big :: WESelection where
  "selection_patch_big =
     \<lparr>type = PATCH, id' = None, mapdata = Some (Num 9007199254740992), entity = Some (Num 12)\<rparr>"

definition selection_patch_nan :: WESelection where
  "selection_patch_nan = \<lparr>type = PATCH, id' = None, mapdata = Some NaN, entity = Some NaN\<rparr>"

text \<open>
  The builtin at the strings of the examples: \<^verbatim>\<open>parseInt('12', 10)\<close> is 12,
  \<^verbatim>\<open>parseInt(' -7px', 10)\<close> is -7, and \<^verbatim>\<open>parseInt('9007199254740993', 10)\<close> is the double
  9007199254740992, the nearest to the integer written. Every other string goes to
  not-a-number here, as \<^verbatim>\<open>'x'\<close> does in the language; the examples use no other.
\<close>

definition parseInt_ex :: "string \<Rightarrow> jsnumber" where
  "parseInt_ex s =
     (if s = ''12'' then Num 12
      else if s = '' -7px'' then Num (- 7)
      else if s = ''9007199254740993'' then Num 9007199254740992
      else NaN)"

definition store_with :: "WESelection \<Rightarrow> unit WEState" where
  "store_with s = (WEState_new False)\<lparr>selection := s\<rparr>"

section \<open>Properties\<close>

lemmas send_defs = emit_def sendGameClientEvent_def sendApiMessage_def

lemmas example_defs = world_ex_def createInputController_def World_new_def WEState_new_def
  cam_ex_def selection_ex_def selection_NONE_def

lemmas selection_ex_defs = store_with_def selection_stale_def selection_patch_def
  selection_patch_big_def selection_patch_nan_def parseInt_ex_def

subsection \<open>Selection predicates\<close>

lemma UNIV_WESelectionType: "(UNIV :: WESelectionType set) = {NONE, ADDITION, PATCH}"
  by (auto intro: WESelectionType.exhaust)

lemma field_eq_number_iff: "field_eq_number f v \<longleftrightarrow> f = Some v \<and> v \<noteq> NaN"
  by (cases f) (auto simp: field_eq_number_def strict_eq_def)

lemma field_eq_string_iff: "field_eq_string f v \<longleftrightarrow> f = Some v"
  by (cases f) (auto simp: field_eq_string_def)

text \<open>
  C1. The selection type has exactly the three members \<open>NONE\<close>, \<open>ADDITION\<close>, \<open>PATCH\<close>.
  \<open>isAdditionSelected\<close> is true exactly when the selection is tagged \<open>ADDITION\<close> and its
  \<^verbatim>\<open>id\<close> is the argument. \<open>isPatchSelected\<close> is true exactly when the selection is tagged
  \<open>PATCH\<close> and its \<^verbatim>\<open>mapdata\<close> and \<^verbatim>\<open>entity\<close> are the numbers that \<^verbatim>\<open>parseInt\<close> returns for
  the two arguments, neither being not-a-number (the result for an argument with no integer
  to parse, which \<^verbatim>\<open>===\<close> finds equal to no field). This holds for every string and for
  whatever the builtin returns on it. For a selection tagged \<open>NONE\<close> both are false,
  whatever its other fields hold.
\<close>

theorem selection_predicates:
  "(isAdditionSelected st additionId \<longleftrightarrow>
      type (selection st) = ADDITION \<and> id' (selection st) = Some additionId)
   \<and> (isPatchSelected parseInt st md en \<longleftrightarrow>
        type (selection st) = PATCH
        \<and> mapdata (selection st) = Some (parseInt md) \<and> parseInt md \<noteq> NaN
        \<and> entity (selection st) = Some (parseInt en) \<and> parseInt en \<noteq> NaN)
   \<and> (type (selection st) = NONE \<longrightarrow>
        \<not> isAdditionSelected st additionId \<and> \<not> isPatchSelected parseInt st md en)
   \<and> (UNIV :: WESelectionType set) = {NONE, ADDITION, PATCH}"
  unfolding isAdditionSelected_def isPatchSelected_def
  by (auto simp: field_eq_number_iff field_eq_string_iff UNIV_WESelectionType)

text \<open>
  At a selection tagged \<open>NONE\<close> with stale fields both predicates are false. At a patch
  selection \<open>isPatchSelected\<close> holds for arguments that parse to its numbers, a sign and a
  rounded integer included, and fails where the numbers differ or nothing is parsed.
\<close>

theorem selection_predicates_witness:
  "type (selection (store_with selection_stale)) = NONE
   \<and> \<not> isAdditionSelected (store_with selection_stale) ''a1''
   \<and> \<not> isPatchSelected parseInt_ex (store_with selection_stale) ''12'' '' -7px''
   \<and> isPatchSelected parseInt_ex (store_with selection_patch) ''12'' '' -7px''
   \<and> \<not> isPatchSelected parseInt_ex (store_with selection_patch) '' -7px'' ''12''
   \<and> isPatchSelected parseInt_ex (store_with selection_patch_big) ''9007199254740993'' ''12''
   \<and> \<not> isPatchSelected parseInt_ex (store_with selection_patch_nan) ''x'' ''x''"
  using selection_predicates [of "store_with selection_stale" "''a1''" parseInt_ex "''12''" "'' -7px''"]
        selection_predicates [of "store_with selection_patch" "''a1''" parseInt_ex "''12''" "'' -7px''"]
        selection_predicates [of "store_with selection_patch" "''a1''" parseInt_ex "'' -7px''" "''12''"]
        selection_predicates [of "store_with selection_patch_big" "''a1''" parseInt_ex
                                 "''9007199254740993''" "''12''"]
        selection_predicates [of "store_with selection_patch_nan" "''a1''" parseInt_ex "''x''" "''x''"]
  by (simp add: selection_ex_defs WEState_new_def)

subsection \<open>Mode\<close>

text \<open>
  C2. Called in mode \<open>EDITOR\<close>, \<open>enterPlaytestMode\<close> sends \<^verbatim>\<open>we:enterPlaytestMode\<close> and
  sets the mode to \<open>PLAYTEST\<close>; with an input controller installed it then calls
  \<^verbatim>\<open>enterFullControl\<close> on it and returns. Called in mode \<open>PLAYTEST\<close>, \<open>enterEditorMode\<close>
  sends \<^verbatim>\<open>we:exitPlaytestMode\<close>, with payload \<^verbatim>\<open>'true'\<close> exactly when \<open>relative\<close> is true
  and the empty string otherwise, and sets the mode to \<open>EDITOR\<close>; with an input controller
  installed it then calls \<^verbatim>\<open>exitFullControl\<close> on it and returns. The first two conjuncts of
  each operation hold with or without a controller; the full result is for the installed
  controller the claim speaks of.
\<close>

theorem playtest_mode_toggle:
  "(mode (store w) = EDITOR \<longrightarrow>
      mode (store (snd (enterPlaytestMode w))) = PLAYTEST
      \<and> take (Suc (length (effects w))) (effects (snd (enterPlaytestMode w)))
          = effects w @ [GameClientEvent ''we:enterPlaytestMode'' (Literal '''')])
   \<and> (mode (store w) = EDITOR \<and> inputController (store w) = Some ic \<longrightarrow>
        enterPlaytestMode w =
          (Returned, w\<lparr>store := (store w)\<lparr>mode := PLAYTEST\<rparr>,
                        effects := effects w @ [GameClientEvent ''we:enterPlaytestMode'' (Literal ''''),
                                                EnterFullControl ic]\<rparr>))
   \<and> (mode (store w) = PLAYTEST \<longrightarrow>
        mode (store (snd (enterEditorMode relative w))) = EDITOR
        \<and> take (Suc (length (effects w))) (effects (snd (enterEditorMode relative w)))
            = effects w @ [GameClientEvent ''we:exitPlaytestMode''
                             (Literal (if relative then ''true'' else ''''))])
   \<and> (mode (store w) = PLAYTEST \<and> inputController (store w) = Some ic \<longrightarrow>
        enterEditorMode relative w =
          (Returned, w\<lparr>store := (store w)\<lparr>mode := EDITOR\<rparr>,
                        effects := effects w @ [GameClientEvent ''we:exitPlaytestMode''
                                                  (Literal (if relative then ''true'' else '''')),
                                                ExitFullControl ic]\<rparr>))
   \<and> ((if relative then ''true'' else '''') = ''true'' \<longleftrightarrow> relative)"
  unfolding enterPlaytestMode_def enterEditorMode_def
  by (auto simp: send_defs Let_def split: option.splits)

text \<open>A round trip from the mounted panel: into playtest mode and back with \<open>relative\<close> set.\<close>

theorem playtest_mode_toggle_witness:
  "mode (store world_ex) = EDITOR \<and> inputController (store world_ex) = Some 0
   \<and> mode (store (snd (enterPlaytestMode world_ex))) = PLAYTEST
   \<and> sent world_ex (snd (enterPlaytestMode world_ex))
       = [GameClientEvent ''we:enterPlaytestMode'' (Literal ''''), EnterFullControl 0]
   \<and> mode (store (snd (enterEditorMode True (snd (enterPlaytestMode world_ex))))) = EDITOR
   \<and> sent (snd (enterPlaytestMode world_ex))
        (snd (enterEditorMode True (snd (enterPlaytestMode world_ex))))
       = [GameClientEvent ''we:exitPlaytestMode'' (Literal ''true''), ExitFullControl 0]"
  using playtest_mode_toggle [of world_ex 0 True]
        playtest_mode_toggle [of "snd (enterPlaytestMode world_ex)" 0 True]
  by (simp add: example_defs send_defs sent_def Let_def)

lemma enterPlaytestMode_guard:
  "mode (store w) = PLAYTEST \<Longrightarrow> enterPlaytestMode w = (Returned, w)"
  by (simp add: enterPlaytestMode_def)

lemma enterEditorMode_guard:
  "mode (store w) = EDITOR \<Longrightarrow> enterEditorMode relative w = (Returned, w)"
  by (simp add: enterEditorMode_def)

lemma mode_enterPlaytestMode: "mode (store (snd (enterPlaytestMode w))) = PLAYTEST"
  by (cases "inputController (store w)") (simp_all add: enterPlaytestMode_def send_defs Let_def)

lemma mode_enterEditorMode: "mode (store (snd (enterEditorMode relative w))) = EDITOR"
  by (cases "inputController (store w)") (simp_all add: enterEditorMode_def send_defs Let_def)

lemma game_events_enterPlaytestMode:
  "filter isGameClientEvent (sent w (snd (enterPlaytestMode w))) =
     (if mode (store w) = PLAYTEST then []
      else [GameClientEvent ''we:enterPlaytestMode'' (Literal '''')])"
  by (cases "inputController (store w)")
     (simp_all add: enterPlaytestMode_def send_defs sent_def Let_def)

lemma game_events_enterEditorMode:
  "filter isGameClientEvent (sent w (snd (enterEditorMode relative w))) =
     (if mode (store w) = EDITOR then []
      else [GameClientEvent ''we:exitPlaytestMode'' (Literal (if relative then ''true'' else ''''))])"
  by (cases "inputController (store w)")
     (simp_all add: enterEditorMode_def send_defs sent_def Let_def)

text \<open>
  C9. \<open>enterPlaytestMode\<close> in mode \<open>PLAYTEST\<close> and \<open>enterEditorMode\<close> in mode \<open>EDITOR\<close>
  return at once: the world, effect log included, is the one they were given. Hence a
  second call right after a first one changes nothing, and the two calls together send at
  most one game-client event.
\<close>

theorem mode_entry_idempotent:
  "(mode (store w) = PLAYTEST \<longrightarrow> enterPlaytestMode w = (Returned, w))
   \<and> (mode (store w) = EDITOR \<longrightarrow> enterEditorMode relative w = (Returned, w))
   \<and> enterPlaytestMode (snd (enterPlaytestMode w)) = (Returned, snd (enterPlaytestMode w))
   \<and> enterEditorMode relative' (snd (enterEditorMode relative w))
       = (Returned, snd (enterEditorMode relative w))
   \<and> length (filter isGameClientEvent
               (sent w (snd (enterPlaytestMode (snd (enterPlaytestMode w)))))) \<le> 1
   \<and> length (filter isGameClientEvent
               (sent w (snd (enterEditorMode relative' (snd (enterEditorMode relative w)))))) \<le> 1"
proof -
  have p2: "enterPlaytestMode (snd (enterPlaytestMode w)) = (Returned, snd (enterPlaytestMode w))"
    by (rule enterPlaytestMode_guard) (rule mode_enterPlaytestMode)
  have e2: "enterEditorMode relative' (snd (enterEditorMode relative w))
              = (Returned, snd (enterEditorMode relative w))"
    by (rule enterEditorMode_guard) (rule mode_enterEditorMode)
  have p3: "length (filter isGameClientEvent
               (sent w (snd (enterPlaytestMode (snd (enterPlaytestMode w)))))) \<le> 1"
    by (simp add: p2 game_events_enterPlaytestMode)
  have e3: "length (filter isGameClientEvent
               (sent w (snd (enterEditorMode relative' (snd (enterEditorMode relative w)))))) \<le> 1"
    by (simp add: e2 game_events_enterEditorMode)
  show ?thesis
    using p2 e2 p3 e3 enterPlaytestMode_guard [of w] enterEditorMode_guard [of w relative]
    by blast
qed

text \<open>In playtest mode a second \<open>enterPlaytestMode\<close>, and in editor mode \<open>enterEditorMode\<close>, is a no-op.\<close>

theorem mode_entry_idempotent_witness:
  "mode (store (snd (enterPlaytestMode world_ex))) = PLAYTEST
   \<and> enterPlaytestMode (snd (enterPlaytestMode world_ex))
       = (Returned, snd (enterPlaytestMode world_ex))
   \<and> mode (store world_ex) = EDITOR
   \<and> enterEditorMode True world_ex = (Returned, world_ex)"
  using mode_entry_idempotent [of "snd (enterPlaytestMode world_ex)" True]
        mode_entry_idempotent [of world_ex True]
  by (simp add: example_defs enterPlaytestMode_def send_defs Let_def)

subsection \<open>Selection updates\<close>

text \<open>
  C3. \<open>setEditorSelection s\<close> sets the selection field to \<open>s\<close>, emits \<^verbatim>\<open>selectionChanged\<close>
  with \<open>s\<close>, and after that sends the game client the event \<^verbatim>\<open>we:selection\<close> whose payload
  is \<^verbatim>\<open>JSON.stringify\<close> of \<open>s\<close>; nothing else changes. The first two steps are
  \<open>updateSelection\<close>. \<open>clearEditorSelection\<close> is \<open>setEditorSelection\<close> at the object
  \<^verbatim>\<open>{ type: NONE }\<close>.
\<close>

theorem setEditorSelection_bridge:
  "setEditorSelection s w =
     w\<lparr>store := (store w)\<lparr>selection := s\<rparr>,
       effects := effects w @ [SelectionChanged s,
                               GameClientEvent ''we:selection'' (JSON_stringify (JSelection s))]\<rparr>
   \<and> updateSelection s w =
       w\<lparr>store := (store w)\<lparr>selection := s\<rparr>, effects := effects w @ [SelectionChanged s]\<rparr>
   \<and> clearEditorSelection w =
       setEditorSelection \<lparr>type = NONE, id' = None, mapdata = None, entity = None\<rparr> w"
  by (simp add: setEditorSelection_def clearEditorSelection_def updateSelection_def
        selection_NONE_def send_defs)

text \<open>
  C4. When \<^verbatim>\<open>additionDeleted\<close> fires with \<open>i\<close> and the selection is the addition \<open>i\<close>, the
  listener is \<open>clearEditorSelection\<close>: the selection becomes \<^verbatim>\<open>{ type: NONE }\<close> and the game
  client is told. For every other selection the world is left as it was. In both cases the
  selection afterwards is not the addition \<open>i\<close>.
\<close>

theorem additionDeleted_clears_selection:
  "(type (selection (store w)) = ADDITION \<and> id' (selection (store w)) = Some i \<longrightarrow>
      on_additionDeleted i w = clearEditorSelection w
      \<and> selection (store (on_additionDeleted i w)) = selection_NONE
      \<and> sent w (on_additionDeleted i w) =
          [SelectionChanged selection_NONE,
           GameClientEvent ''we:selection'' (JSON_stringify (JSelection selection_NONE))])
   \<and> (\<not> (type (selection (store w)) = ADDITION \<and> id' (selection (store w)) = Some i) \<longrightarrow>
        on_additionDeleted i w = w)
   \<and> \<not> (type (selection (store (on_additionDeleted i w))) = ADDITION
        \<and> id' (selection (store (on_additionDeleted i w))) = Some i)"
  unfolding on_additionDeleted_def field_eq_string_iff
  by (simp add: clearEditorSelection_def setEditorSelection_def updateSelection_def
        selection_NONE_def send_defs sent_def)

text \<open>With the addition \<^verbatim>\<open>a1\<close> selected: deleting \<^verbatim>\<open>a1\<close> clears, deleting \<^verbatim>\<open>b2\<close> does not.\<close>

theorem additionDeleted_clears_selection_witness:
  "type (selection (store (setEditorSelection selection_ex world_ex))) = ADDITION
   \<and> id' (selection (store (setEditorSelection selection_ex world_ex))) = Some ''a1''
   \<and> selection (store (on_additionDeleted ''a1'' (setEditorSelection selection_ex world_ex)))
       = selection_NONE
   \<and> on_additionDeleted ''b2'' (setEditorSelection selection_ex world_ex)
       = setEditorSelection selection_ex world_ex"
  using additionDeleted_clears_selection [of "setEditorSelection selection_ex world_ex" "''a1''"]
        additionDeleted_clears_selection [of "setEditorSelection selection_ex world_ex" "''b2''"]
  by (simp add: example_defs on_additionDeleted_def clearEditorSelection_def
        setEditorSelection_def updateSelection_def field_eq_string_def send_defs Let_def)

subsection \<open>Map lifecycle and host events\<close>

text \<open>
  C5. \<open>openMap entry\<close> sets the map to null and the map entry to \<open>entry\<close>, resets the
  history, sends the start request with \<open>mapPath = path entry\<close> over the API transport and
  sets the shell personality to \<open>WORLD_EDITOR\<close>, in this order. \<open>closeMap\<close> sets \<open>ready\<close> to
  false unless the toggle \<^verbatim>\<open>WORLD_EDITOR_UI_ONLY\<close> is on, sets the map and the map entry to
  null, sends the stop message and sets the shell personality to \<open>THEIA\<close>. Nothing else
  changes.
\<close>

theorem map_lifecycle:
  "openMap entry w =
     w\<lparr>store := (store w)\<lparr>map' := None, mapEntry := Some entry\<rparr>,
       effects := effects w @ [HistoryReset, ApiMessage start (Some \<lparr>mapPath = path entry\<rparr>),
                               SetPersonality WORLD_EDITOR]\<rparr>
   \<and> closeMap ui_only w =
       w\<lparr>store := (store w)\<lparr>ready := (if ui_only then ready (store w) else False),
                             map' := None, mapEntry := None\<rparr>,
         effects := effects w @ [ApiMessage stop None, SetPersonality THEIA]\<rparr>"
  by (simp add: openMap_def closeMap_def send_defs Let_def)

text \<open>
  C6. The handler of \<^verbatim>\<open>we:ready\<close> sets \<open>ready\<close> to true and changes no other field; it
  requests the refresh of the archetypes collection exactly when that collection is not
  ready. The handler of \<^verbatim>\<open>mapLoaded\<close> replaces the map by a map state constructed from the
  received map and changes nothing else.
\<close>

theorem host_events:
  "store (on_we_ready w) = (store w)\<lparr>ready := True\<rparr>
   \<and> ready (store (on_we_ready w))
   \<and> sent w (on_we_ready w) =
       (if archetypesCollectionReady w then [] else [RefreshArchetypesCollection])
   \<and> (RefreshArchetypesCollection \<in> set (sent w (on_we_ready w))
        \<longleftrightarrow> \<not> archetypesCollectionReady w)
   \<and> on_mapLoaded m w = w\<lparr>store := (store w)\<lparr>map' := Some (WEMapState m)\<rparr>\<rparr>
   \<and> map' (store (on_mapLoaded m w)) = Some (WEMapState m)"
  by (simp add: on_we_ready_def on_mapLoaded_def send_defs sent_def Let_def)

subsection \<open>Payloads\<close>

text \<open>
  C7, as claimed, fails: \<open>setCam\<close> receives an array of numbers, not a string, and the
  payload it sends is \<^verbatim>\<open>JSON.stringify\<close> of that array, computed in this file; likewise
  \<open>focusInView\<close> and \<open>setEditorSelection\<close>.
\<close>

theorem payloads_forwarded_counterexample:
  "sent world_ex (setCam cam_ex world_ex)
     = [GameClientEvent ''we:setCam'' (JSON_stringify (JArray (map JNumber cam_ex)))]
   \<and> list_ex serialisedHere (sent world_ex (setCam cam_ex world_ex))
   \<and> list_ex serialisedHere (sent world_ex (focusInView cam_ex (Num 1, Num 2, Num 3) world_ex))
   \<and> list_ex serialisedHere (sent world_ex (setEditorSelection selection_ex world_ex))"
  by (simp add: example_defs setCam_def focusInView_def setEditorSelection_def
        updateSelection_def send_defs sent_def Let_def)

text \<open>
  C7, amended. The payloads are serialised by this file before they reach the transport:
  \<open>setCam\<close>, \<open>focusInView\<close> and \<open>setEditorSelection\<close> each send one game-client event whose
  payload is \<^verbatim>\<open>JSON.stringify\<close> of the value received (the camera array, the object of
  \<^verbatim>\<open>cam\<close> and \<^verbatim>\<open>lookAt\<close>, the selection). The mode events carry a string literal of the
  file. The API messages carry the start request object, or nothing, and are not serialised
  here.
\<close>

theorem payloads_serialised_here:
  "sent w (setCam cam w) =
     [GameClientEvent ''we:setCam'' (JSON_stringify (JArray (map JNumber cam)))]
   \<and> sent w (focusInView cam (x, y, z) w) =
       [GameClientEvent ''we:focusInView''
          (JSON_stringify (JObject [(''cam'', JArray (map JNumber cam)),
                                    (''lookAt'', JArray [JNumber x, JNumber y, JNumber z])]))]
   \<and> filter isGameClientEvent (sent w (setEditorSelection s w)) =
       [GameClientEvent ''we:selection'' (JSON_stringify (JSelection s))]
   \<and> filter isGameClientEvent (sent w (snd (enterPlaytestMode w))) =
       (if mode (store w) = PLAYTEST then []
        else [GameClientEvent ''we:enterPlaytestMode'' (Literal '''')])
   \<and> filter isGameClientEvent (sent w (snd (enterEditorMode relative w))) =
       (if mode (store w) = EDITOR then []
        else [GameClientEvent ''we:exitPlaytestMode'' (Literal (if relative then ''true'' else ''''))])
   \<and> sent w (openMap entry w) =
       [HistoryReset, ApiMessage start (Some \<lparr>mapPath = path entry\<rparr>), SetPersonality WORLD_EDITOR]
   \<and> sent w (closeMap ui_only w) = [ApiMessage stop None, SetPersonality THEIA]"
proof -
  have cam: "sent w (setCam cam w) =
     [GameClientEvent ''we:setCam'' (JSON_stringify (JArray (map JNumber cam)))]"
    by (simp add: setCam_def send_defs sent_def)
  have focus: "sent w (focusInView cam (x, y, z) w) =
       [GameClientEvent ''we:focusInView''
          (JSON_stringify (JObject [(''cam'', JArray (map JNumber cam)),
                                    (''lookAt'', JArray [JNumber x, JNumber y, JNumber z])]))]"
    by (simp add: focusInView_def send_defs sent_def)
  have sel: "filter isGameClientEvent (sent w (setEditorSelection s w)) =
       [GameClientEvent ''we:selection'' (JSON_stringify (JSelection s))]"
    by (simp add: setEditorSelection_def updateSelection_def send_defs sent_def)
  have opened: "sent w (openMap entry w) =
       [HistoryReset, ApiMessage start (Some \<lparr>mapPath = path entry\<rparr>), SetPersonality WORLD_EDITOR]"
    by (simp add: openMap_def send_defs sent_def Let_def)
  have closed: "sent w (closeMap ui_only w) = [ApiMessage stop None, SetPersonality THEIA]"
    by (simp add: closeMap_def send_defs sent_def Let_def)
  show ?thesis
    using cam focus sel opened closed
      game_events_enterPlaytestMode [of w] game_events_enterEditorMode [of w relative]
    by blast
qed

subsection \<open>Camera\<close>

text \<open>
  C8, as claimed, fails: \<open>setCam\<close> and \<open>focusInView\<close> leave the store as it was, while
  another handler (\<^verbatim>\<open>we:ready\<close>) does change it; and what they send is the same from two
  different stores.
\<close>

theorem camera_state_counterexample:
  "store (setCam cam_ex world_ex) = store world_ex
   \<and> store (focusInView cam_ex (Num 1, Num 2, Num 3) world_ex) = store world_ex
   \<and> store (on_we_ready world_ex) \<noteq> store world_ex
   \<and> sent (on_we_ready world_ex) (setCam cam_ex (on_we_ready world_ex))
       = sent world_ex (setCam cam_ex world_ex)
   \<and> sent (on_we_ready world_ex) (focusInView cam_ex (Num 1, Num 2, Num 3) (on_we_ready world_ex))
       = sent world_ex (focusInView cam_ex (Num 1, Num 2, Num 3) world_ex)"
  by (simp add: example_defs setCam_def focusInView_def on_we_ready_def send_defs sent_def
        Let_def)

text \<open>
  C8, amended. The store holds no camera: \<open>setCam\<close> and \<open>focusInView\<close> leave every field of
  the store unchanged and only append one game-client event, which is determined by their
  arguments alone.
\<close>

theorem camera_only_forwarded:
  "setCam cam w =
     w\<lparr>effects := effects w @
         [GameClientEvent ''we:setCam'' (JSON_stringify (JArray (map JNumber cam)))]\<rparr>
   \<and> focusInView cam (x, y, z) w =
       w\<lparr>effects := effects w @
           [GameClientEvent ''we:focusInView''
              (JSON_stringify (JObject [(''cam'', JArray (map JNumber cam)),
                                        (''lookAt'', JArray [JNumber x, JNumber y, JNumber z])]))]\<rparr>
   \<and> store (setCam cam w) = store w
   \<and> store (focusInView cam (x, y, z) w) = store w"
  by (simp add: setCam_def focusInView_def send_defs)

subsection \<open>Input controller lifecycle\<close>

lemma store_destroyInputController:
  "store (destroyInputController w)
     = (store w)\<lparr>inputController := None, selection := selection_NONE\<rparr>"
  by (cases "inputController (store w)")
     (simp_all add: destroyInputController_def updateSelection_def send_defs Let_def)

lemma sent_destroyInputController:
  "sent w (destroyInputController w) =
     SelectionChanged selection_NONE #
       (case inputController (store w) of None \<Rightarrow> [] | Some ic \<Rightarrow> [Destroy ic])"
  by (cases "inputController (store w)")
     (simp_all add: destroyInputController_def updateSelection_def send_defs sent_def Let_def)

lemma rest_destroyInputController:
  "archetypesCollectionReady (destroyInputController w) = archetypesCollectionReady w
   \<and> controllersCreated (destroyInputController w) = controllersCreated w"
  by (cases "inputController (store w)")
     (simp_all add: destroyInputController_def updateSelection_def send_defs Let_def)

lemma installed_createInputController:
  "inputController (store (createInputController c w)) = Some (controllersCreated w)
   \<and> InputController_new (controllersCreated w) c setEditorSelect_cb
       \<in> set (sent w (createInputController c w))"
  by (simp add: createInputController_def send_defs sent_def Let_def)

text \<open>
  C10. \<open>destroyInputController\<close> sets the selection to \<^verbatim>\<open>{ type: NONE }\<close> and emits
  \<^verbatim>\<open>selectionChanged\<close>, sends the game client nothing (where \<open>clearEditorSelection\<close> sends
  \<^verbatim>\<open>we:selection\<close>), destroys the installed controller if there is one and unsets the field;
  every other field of the store stays as it was. A following \<open>createInputController\<close>
  constructs a controller and installs it, and it is not the destroyed one.
\<close>

theorem destroyInputController_frame:
  "store (destroyInputController w)
     = (store w)\<lparr>inputController := None, selection := selection_NONE\<rparr>
   \<and> sent w (destroyInputController w) =
       SelectionChanged selection_NONE #
         (case inputController (store w) of None \<Rightarrow> [] | Some ic \<Rightarrow> [Destroy ic])
   \<and> filter isGameClientEvent (sent w (destroyInputController w)) = []
   \<and> filter isGameClientEvent (sent w (clearEditorSelection w)) =
       [GameClientEvent ''we:selection'' (JSON_stringify (JSelection selection_NONE))]
   \<and> archetypesCollectionReady (destroyInputController w) = archetypesCollectionReady w
   \<and> controllersCreated (destroyInputController w) = controllersCreated w
   \<and> inputController (store (createInputController c (destroyInputController w)))
       = Some (controllersCreated w)
   \<and> InputController_new (controllersCreated w) c setEditorSelect_cb
       \<in> set (sent (destroyInputController w) (createInputController c (destroyInputController w)))
   \<and> (inputController (store w) = Some ic \<and> ic < controllersCreated w \<longrightarrow>
        inputController (store (createInputController c (destroyInputController w))) \<noteq> Some ic)"
proof -
  have g: "filter isGameClientEvent (sent w (destroyInputController w)) = []"
    by (cases "inputController (store w)") (simp_all add: sent_destroyInputController)
  have c: "filter isGameClientEvent (sent w (clearEditorSelection w)) =
       [GameClientEvent ''we:selection'' (JSON_stringify (JSelection selection_NONE))]"
    by (simp add: clearEditorSelection_def setEditorSelection_def updateSelection_def
          send_defs sent_def)
  have n: "inputController (store (createInputController c (destroyInputController w)))
             = Some (controllersCreated w)
           \<and> InputController_new (controllersCreated w) c setEditorSelect_cb
               \<in> set (sent (destroyInputController w)
                        (createInputController c (destroyInputController w)))"
    using installed_createInputController [of c "destroyInputController w"]
    by (simp add: rest_destroyInputController)
  show ?thesis
    using g c n store_destroyInputController [of w] sent_destroyInputController [of w]
      rest_destroyInputController [of w]
    by auto
qed

text \<open>On the mounted panel: the controller 0 is destroyed and unset, and the next one is 1.\<close>

theorem destroyInputController_frame_witness:
  "inputController (store world_ex) = Some 0 \<and> 0 < controllersCreated world_ex
   \<and> sent world_ex (destroyInputController world_ex) = [SelectionChanged selection_NONE, Destroy 0]
   \<and> inputController (store (destroyInputController world_ex)) = None
   \<and> inputController (store (createInputController 5 (destroyInputController world_ex))) = Some 1
   \<and> inputController (store (createInputController 5 (destroyInputController world_ex))) \<noteq> Some 0"
  using destroyInputController_frame [of world_ex 5 0]
  by (simp add: world_ex_def createInputController_def World_new_def WEState_new_def
        send_defs Let_def)

end
